theory Spec2Isabelle
  imports Complex_Main
begin

section \<open>Data model\<close>

text \<open>
  The gateway is the last version of \<^verbatim>\<open>api-gateway.ts\<close> in the sources, with
  \<^verbatim>\<open>retry.ts\<close> and \<^verbatim>\<open>load-balancer.ts\<close>. JavaScript numbers that the
  code uses as counters, HTTP statuses and epoch milliseconds are integers here; the
  backoff delay, which adds a fractional jitter, is a real. \<^verbatim>\<open>NaN\<close> and infinities
  are outside the model.
\<close>

subsection \<open>Headers and payloads\<close>

text \<open>A header value is \<^verbatim>\<open>string | string[]\<close>; a header object is its entry list,
  in the order of \<^verbatim>\<open>Object.entries\<close>.\<close>

datatype hval = HString string | HArray "string list"

type_synonym headers = "(string \<times> hval) list"

text \<open>Payloads typed \<^verbatim>\<open>any\<close> are JSON values; the gateway never looks inside them.\<close>

datatype json =
    JNull
  | JBool bool
  | JNum int
  | JStr string
  | JArr "json list"
  | JObj "(string \<times> json) list"

text \<open>\<^verbatim>\<open>resData.error\<close> of a backend body: a string, or an object
  \<^verbatim>\<open>{code, message?}\<close>.\<close>

datatype errorField = ErrorString string | ErrorObject string "string option"

text \<open>The body a backend or the registry answers with (the \<^verbatim>\<open>ApiResponse\<close> it sent).\<close>

record serviceBody =
  body_success :: bool
  body_timestamp :: "int option"
  body_data :: "json option"
  body_error :: "errorField option"

text \<open>What \<^verbatim>\<open>axios.request\<close> resolves to, and what \<^verbatim>\<open>AxiosError.response\<close> holds.\<close>

record axiosResponse =
  resp_status :: int
  resp_headers :: "headers option"
  resp_data :: serviceBody

subsection \<open>Errors\<close>

text \<open>
  Every value the code can catch: an \<^verbatim>\<open>AxiosError\<close> (its \<^verbatim>\<open>code\<close>, its
  \<^verbatim>\<open>response\<close>, \<^verbatim>\<open>String(request)\<close> when a request was sent, its message), an
  \<^verbatim>\<open>ApiGatewayError\<close> (status, code, message, data), any other \<^verbatim>\<open>Error\<close> with
  its message, and a thrown value that is no \<^verbatim>\<open>Error\<close> at all.
\<close>

datatype jsError =
    AxiosError (ax_code: "string option") (ax_response: "axiosResponse option")
               (ax_request: "string option") (ax_message: string)
  | ApiGatewayError (gw_status: int) (gw_code: string) (gw_message: string)
                    (gw_data: "json option")
  | Error string
  | Thrown string

section \<open>RetryStrategy (retry.ts)\<close>

record RetryStrategy =
  maxRetries :: int
  baseDelay :: real
  maxDelay :: real
  retryableStatus :: "int set"

text \<open>The constructor called with no options.\<close>

definition RetryStrategy_default :: RetryStrategy where
  "RetryStrategy_default =
     \<lparr>maxRetries = 3, baseDelay = 1000, maxDelay = 5000,
      retryableStatus = {500, 502, 503, 504}\<rparr>"

text \<open>\<^verbatim>\<open>shouldRetry(err, attempt)\<close>, branch by branch.\<close>

fun shouldRetry :: "RetryStrategy \<Rightarrow> jsError \<Rightarrow> nat \<Rightarrow> bool" where
  "shouldRetry rs (AxiosError code response request message) attempt =
     (if code = Some ''ECONNABORTED'' then int attempt < maxRetries rs
      else (case response of
              Some r \<Rightarrow> int attempt < maxRetries rs \<and> resp_status r \<in> retryableStatus rs
            | None \<Rightarrow> False))"
| "shouldRetry rs (ApiGatewayError status code message d) attempt =
     (int attempt < maxRetries rs \<and> status \<in> retryableStatus rs)"
| "shouldRetry rs (Error message) attempt = False"
| "shouldRetry rs (Thrown v) attempt = False"

text \<open>
  \<^verbatim>\<open>delay(attempt)\<close> sleeps for \<^verbatim>\<open>exponentialDelay + jitter\<close>. \<open>exponentialDelay\<close> is the
  first summand; \<open>delay_ms\<close> is the duration handed to \<^verbatim>\<open>setTimeout\<close>, given the value
  \<open>r\<close> that \<^verbatim>\<open>Math.random()\<close> returned (a number in \<open>[0, 1)\<close>). The sum is taken over
  the reals. The code adds doubles, and the rounded sum can reach a bound that the exact
  sum stays strictly inside (\<open>5000 + 9.999999999999998\<close> is \<open>5010\<close> as a double), so the
  bounds on a sleep are stated with \<open>\<le>\<close> and \<open>\<ge>\<close>, never strictly.
\<close>

definition exponentialDelay :: "RetryStrategy \<Rightarrow> nat \<Rightarrow> real" where
  "exponentialDelay rs attempt = min (maxDelay rs) (baseDelay rs * 2 ^ attempt)"

definition jitter :: "real \<Rightarrow> real" where
  "jitter r = r * 10"

definition delay_ms :: "RetryStrategy \<Rightarrow> nat \<Rightarrow> real \<Rightarrow> real" where
  "delay_ms rs attempt r = exponentialDelay rs attempt + jitter r"

text \<open>
  The two error shapes that section 4.1 of the specification names as retryable, in its
  words: a transport timeout, or an HTTP error whose response status is in
  \<open>retryableStatuses\<close>.
\<close>

definition spec_transport_timeout :: "jsError \<Rightarrow> bool" where
  "spec_transport_timeout e =
     (case e of AxiosError code response request message \<Rightarrow> code = Some ''ECONNABORTED''
              | _ \<Rightarrow> False)"

definition spec_retryable_http :: "RetryStrategy \<Rightarrow> jsError \<Rightarrow> bool" where
  "spec_retryable_http rs e =
     (case e of
        AxiosError code response request message \<Rightarrow>
          (case response of Some r \<Rightarrow> resp_status r \<in> retryableStatus rs | None \<Rightarrow> False)
      | _ \<Rightarrow> False)"

text \<open>The third shape \<open>shouldRetry\<close> accepts: an \<^verbatim>\<open>ApiGatewayError\<close> whose own status
  is in \<open>retryableStatus\<close>.\<close>

definition gateway_retryable :: "RetryStrategy \<Rightarrow> jsError \<Rightarrow> bool" where
  "gateway_retryable rs e =
     (case e of ApiGatewayError st c msg d \<Rightarrow> st \<in> retryableStatus rs
              | _ \<Rightarrow> False)"

section \<open>Load balancers (load-balancer.ts)\<close>

text \<open>
  Modelled from the spec: the \<^verbatim>\<open>Instance\<close> type is declared in the package
  \<^verbatim>\<open>microservice-ecommerce\<close>, which is not among the sources; the fields are those of
  section 3 of the specification. The port is kept as the text that the URL template
  interpolates.
\<close>

record Instance =
  inst_id :: string
  serviceType :: string
  host :: string
  inst_port :: string
  healthy :: bool
  created :: int
  lastUpdated :: int

text \<open>The round-robin balancer is its \<^verbatim>\<open>serviceTypes\<close> map, empty when constructed.\<close>

type_synonym RoundRobinBalancer = "string \<rightharpoonup> nat"

definition RoundRobinBalancer_new :: RoundRobinBalancer where
  "RoundRobinBalancer_new = Map.empty"

text \<open>
  \<^verbatim>\<open>RoundRobinBalancer.selectInstance\<close>. On an empty array \<^verbatim>\<open>instances[0].serviceType\<close>
  throws a \<^verbatim>\<open>TypeError\<close> before anything is stored.
\<close>

definition selectInstance ::
  "RoundRobinBalancer \<Rightarrow> Instance list \<Rightarrow> jsError + (Instance \<times> RoundRobinBalancer)" where
  "selectInstance serviceTypes instances =
     (case instances of
        [] \<Rightarrow> Inl (Error ''Cannot read properties of undefined (reading 'serviceType')'')
      | first # _ \<Rightarrow>
          (let type = serviceType first;
               idx0 = (case serviceTypes type of Some i \<Rightarrow> i | None \<Rightarrow> 0);
               idx = (if int idx0 > int (length instances) - 1 then 0 else idx0);
               instance = instances ! idx
           in Inr (instance, serviceTypes(type \<mapsto> (idx + 1) mod length instances))))"

text \<open>
  \<open>selectMany b xs k\<close> calls \<open>selectInstance\<close> \<open>k\<close> times in a row with the same list
  and collects the picks, threading the balancer through.
\<close>

fun selectMany ::
  "RoundRobinBalancer \<Rightarrow> Instance list \<Rightarrow> nat \<Rightarrow> jsError + (Instance list \<times> RoundRobinBalancer)" where
  "selectMany b xs 0 = Inr ([], b)"
| "selectMany b xs (Suc k) =
     (case selectInstance b xs of
        Inl e \<Rightarrow> Inl e
      | Inr (x, b') \<Rightarrow>
          (case selectMany b' xs k of
             Inl e \<Rightarrow> Inl e
           | Inr (picks, b'') \<Rightarrow> Inr (x # picks, b'')))"

text \<open>
  \<^verbatim>\<open>RandomBalancer.selectInstance\<close>, given the value \<open>r\<close> of \<^verbatim>\<open>Math.random()\<close>; an index
  outside the array reads \<^verbatim>\<open>undefined\<close>.
\<close>

definition RandomBalancer_selectInstance :: "real \<Rightarrow> Instance list \<Rightarrow> Instance option" where
  "RandomBalancer_selectInstance r instances =
     (let randomIdx = nat \<lfloor>r * real (length instances)\<rfloor>
      in if randomIdx < length instances then Some (instances ! randomIdx) else None)"

text \<open>The cursor a call reads for type \<open>T\<close> over \<open>n\<close> instances: the stored value, 0
  when there is none, and 0 again when the stored value is not below \<open>n\<close>.\<close>

definition cursorOf :: "RoundRobinBalancer \<Rightarrow> string \<Rightarrow> nat \<Rightarrow> nat" where
  "cursorOf b T n = (case b T of Some i \<Rightarrow> if i \<ge> n then 0 else i | None \<Rightarrow> 0)"

section \<open>Header filters (api-gateway.ts)\<close>

text \<open>\<^verbatim>\<open>String.prototype.toLowerCase\<close> on header names, which are ASCII tokens.\<close>

definition toLowerCase_char :: "char \<Rightarrow> char" where
  "toLowerCase_char c =
     (case map_of (zip ''ABCDEFGHIJKLMNOPQRSTUVWXYZ'' ''abcdefghijklmnopqrstuvwxyz'') c of
        Some l \<Rightarrow> l
      | None \<Rightarrow> c)"

definition toLowerCase :: "string \<Rightarrow> string" where
  "toLowerCase s = map toLowerCase_char s"

definition startsWith :: "string \<Rightarrow> string \<Rightarrow> bool" where
  "startsWith s p = (take (length p) s = p)"

definition EXCLUDED_REQUEST_HEADERS :: "string set" where
  "EXCLUDED_REQUEST_HEADERS =
     {''host'', ''connection'', ''content-length'', ''transfer-encoding'', ''authorization''}"

definition EXCLUDED_RESPONSE_HEADERS :: "string set" where
  "EXCLUDED_RESPONSE_HEADERS =
     {''connection'', ''keep-alive'', ''proxy-authenticate'', ''proxy-authorization'', ''te'',
      ''trailer'', ''transfer-encoding'', ''upgrade'', ''x-internal-''}"

text \<open>
  Both filters walk \<^verbatim>\<open>Object.entries(headers ?? {})\<close> and assign the kept entries to a
  fresh object. The entries of an object carry each key once, so the fresh object holds
  exactly the kept entries, in order.
\<close>

definition filterRequestHeaders :: "(string \<times> 'v) list option \<Rightarrow> (string \<times> 'v) list" where
  "filterRequestHeaders headers =
     filter (\<lambda>(k, v). toLowerCase k \<notin> EXCLUDED_REQUEST_HEADERS)
       (case headers of Some h \<Rightarrow> h | None \<Rightarrow> [])"

definition filterResponseHeaders :: "(string \<times> 'v) list option \<Rightarrow> (string \<times> 'v) list" where
  "filterResponseHeaders headers =
     filter (\<lambda>(key, v). \<not> startsWith (toLowerCase key) ''x-internal-'' \<and>
                          toLowerCase key \<notin> EXCLUDED_RESPONSE_HEADERS)
       (case headers of Some h \<Rightarrow> h | None \<Rightarrow> [])"

text \<open>The hop-by-hop header names of section 4.3 of the specification.\<close>

definition spec_hop_by_hop :: "string set" where
  "spec_hop_by_hop =
     {''connection'', ''keep-alive'', ''proxy-authenticate'', ''proxy-authorization'', ''te'',
      ''trailer'', ''transfer-encoding'', ''upgrade''}"

section \<open>The gateway (api-gateway.ts)\<close>

datatype ApiGatewayStatus =
    GATEWAY_STARTING
  | REGISTRY_HEALTH_CHECK_FAIL
  | GATEWAY_ACTIVE
  | SHUTTING_DOWN
  | ATTEMPTING_REREGISTRATION

text \<open>The status is a string in the source; this is the string.\<close>

fun statusString :: "ApiGatewayStatus \<Rightarrow> string" where
  "statusString GATEWAY_STARTING = ''GATEWAY_STARTING''"
| "statusString REGISTRY_HEALTH_CHECK_FAIL = ''REGISTRY_HEALTH_CHECK_FAIL''"
| "statusString GATEWAY_ACTIVE = ''GATEWAY_ACTIVE''"
| "statusString SHUTTING_DOWN = ''SHUTTING_DOWN''"
| "statusString ATTEMPTING_REREGISTRATION = ''ATTEMPTING_REREGISTRATION''"

text \<open>\<^verbatim>\<open>ApiGatewayError.fromStatus\<close>: the message of each status, then the error.\<close>

fun fromStatus_message :: "ApiGatewayStatus \<Rightarrow> string" where
  "fromStatus_message ATTEMPTING_REREGISTRATION =
     ''Attempting to re-register with service registry. Check back shortly''"
| "fromStatus_message REGISTRY_HEALTH_CHECK_FAIL =
     ''Health check on service registry failed, attempting retry. Check back shortly''"
| "fromStatus_message SHUTTING_DOWN =
     ''Gateway has encountered an error and is shutting down''"
| "fromStatus_message _ = ''Gateway is starting. Please check back shortly''"

definition fromStatus :: "ApiGatewayStatus \<Rightarrow> jsError" where
  "fromStatus st = ApiGatewayError 503 (statusString st) (fromStatus_message st) None"

record RegistryHeaders =
  x_service_id :: string
  x_service_token :: string

datatype balancer = RoundRobin RoundRobinBalancer | Random

datatype failStrategy = TryAgain | Shutdown

text \<open>The fields of the \<^verbatim>\<open>ApiGateway\<close> object; \<open>healthCheckTimeout\<close> holds the delay of
  the pending timer.\<close>

record ApiGateway =
  registryUrl :: string
  port :: "int option"
  status :: ApiGatewayStatus
  timeout :: int
  healthChecks :: bool
  healthCheckInterval :: int
  healthCheckTimeout :: "int option"
  healthCheckFailStrategy :: failStrategy
  totalTimeout :: int
  retryStrategy :: RetryStrategy
  registryHeaders :: "RegistryHeaders option"
  loadBalancer :: balancer

text \<open>The inbound request, as far as the gateway reads it.\<close>

record request =
  req_method :: string
  req_headers :: headers
  req_body :: "json option"

text \<open>The configuration object handed to \<^verbatim>\<open>axios.request\<close>.\<close>

record outboundRequest =
  out_method :: string
  out_url :: string
  out_headers :: headers
  out_data :: "json option"
  out_timeout :: int

text \<open>The envelope the gateway writes (\<^verbatim>\<open>ApiResponse\<close>); a field that is
  \<^verbatim>\<open>undefined\<close> is \<open>None\<close>.\<close>

record errorResponse =
  code :: string
  message :: "string option"

record ApiResponse =
  success :: bool
  timestamp :: int
  data :: "json option"
  error :: "errorResponse option"

subsection \<open>Effects\<close>

text \<open>
  Everything the gateway does to the outside is an event, logged in order: the calls to
  the registry and to a backend, the sleeps, the writes on the client's response object
  and the termination signal.
\<close>

datatype event =
    RegistryPost string "int option" string
  | RegistryGet string "RegistryHeaders option"
  | BackendRequest outboundRequest
  | Sleep real
  | ResSet headers
  | ResStatusJson int ApiResponse
  | EmitSIGTERM

text \<open>
  The outside itself is a parameter: the environment variable, \<^verbatim>\<open>new URL(path, base)\<close>
  (\<open>None\<close> when it throws), the successive values of \<^verbatim>\<open>Date.now()\<close> and
  \<^verbatim>\<open>Math.random()\<close>, and what each call to the registry or to a backend comes back with
  (\<open>Inl\<close> when the promise rejects).
\<close>

record world =
  SERVICE_REGISTRATION_KEY :: "string option"
  newURL :: "string \<Rightarrow> string \<Rightarrow> string option"
  dateNow :: "nat \<Rightarrow> int"
  mathRandom :: "nat \<Rightarrow> real"
  registryPost :: "nat \<Rightarrow> jsError + (string \<times> string)"
  registryGet :: "string \<Rightarrow> RegistryHeaders option \<Rightarrow> jsError + Instance list"
  backend :: "nat \<Rightarrow> outboundRequest \<Rightarrow> jsError + axiosResponse"

record io =
  trace :: "event list"
  clockReads :: nat
  randomReads :: nat
  posts :: nat

definition io_start :: io where
  "io_start = \<lparr>trace = [], clockReads = 0, randomReads = 0, posts = 0\<rparr>"

definition emit :: "event \<Rightarrow> io \<Rightarrow> io" where
  "emit e s = s\<lparr>trace := trace s @ [e]\<rparr>"

definition Date_now :: "world \<Rightarrow> io \<Rightarrow> int \<times> io" where
  "Date_now w s = (dateNow w (clockReads s), s\<lparr>clockReads := Suc (clockReads s)\<rparr>)"

definition Math_random :: "world \<Rightarrow> io \<Rightarrow> real \<times> io" where
  "Math_random w s = (mathRandom w (randomReads s), s\<lparr>randomReads := Suc (randomReads s)\<rparr>)"

text \<open>\<^verbatim>\<open>RetryStrategy.delay\<close> as an effect: one random number, one sleep.\<close>

definition delay :: "world \<Rightarrow> RetryStrategy \<Rightarrow> nat \<Rightarrow> io \<Rightarrow> io" where
  "delay w rs attempt s =
     (case Math_random w s of (r, s1) \<Rightarrow> emit (Sleep (delay_ms rs attempt r)) s1)"

subsection \<open>Writing the response\<close>

text \<open>\<^verbatim>\<open>handleSuccessResponse(res, status, data, headers)\<close>.\<close>

definition handleSuccessResponse ::
  "world \<Rightarrow> int \<Rightarrow> json option \<Rightarrow> headers option \<Rightarrow> io \<Rightarrow> io" where
  "handleSuccessResponse w st d headers s =
     (case Date_now w s of
        (now, s1) \<Rightarrow>
          (let response = \<lparr>success = True, timestamp = now, data = d, error = None\<rparr>;
               s2 = emit (ResSet (filterResponseHeaders headers)) s1
           in emit (ResStatusJson st response) s2))"

text \<open>The end of \<^verbatim>\<open>handleErrResponse\<close>: build the envelope and send it.\<close>

definition sendErr :: "world \<Rightarrow> int \<Rightarrow> json option \<Rightarrow> string \<Rightarrow> string option \<Rightarrow> io \<Rightarrow> io" where
  "sendErr w st d c m s =
     (case Date_now w s of
        (now, s1) \<Rightarrow>
          (let response = \<lparr>success = False, timestamp = now, data = d,
                             error = Some \<lparr>code = c, message = m\<rparr>\<rparr>
           in emit (ResStatusJson st response) s1))"

text \<open>
  \<^verbatim>\<open>handleErrResponse(res, err)\<close>. With a response on the \<^verbatim>\<open>AxiosError\<close>, its headers
  go to \<^verbatim>\<open>res.set\<close> as they are; an empty \<^verbatim>\<open>resData.error\<close> string is falsy and falls
  to the last branch.
\<close>

definition handleErrResponse :: "world \<Rightarrow> jsError \<Rightarrow> io \<Rightarrow> io" where
  "handleErrResponse w err s =
     (case err of
        AxiosError c response request msg \<Rightarrow>
          (case response of
             Some r \<Rightarrow>
               (let s1 = (case resp_headers r of Some headers \<Rightarrow> emit (ResSet headers) s
                                               | None \<Rightarrow> s);
                    resData = resp_data r
                in (case body_error resData of
                      Some (ErrorString str) \<Rightarrow>
                        if str \<noteq> [] then
                          sendErr w (resp_status r) (body_data resData) ''SERVICE_ERROR'' (Some str) s1
                        else
                          sendErr w (resp_status r) (body_data resData) ''SERVICE_ERROR''
                            (Some ''Unknown error occured'') s1
                    | Some (ErrorObject ec em) \<Rightarrow>
                        sendErr w (resp_status r) (body_data resData) ec em s1
                    | None \<Rightarrow>
                        sendErr w (resp_status r) (body_data resData) ''SERVICE_ERROR''
                          (Some ''Unknown error occured'') s1))
           | None \<Rightarrow>
               (case request of
                  Some rq \<Rightarrow> sendErr w 502 None ''GATEWAY_ERROR'' (Some rq) s
                | None \<Rightarrow> sendErr w 500 None ''GATEWAY_ERROR'' (Some msg) s))
      | ApiGatewayError st c msg d \<Rightarrow> sendErr w st d c (Some msg) s
      | Error msg \<Rightarrow> sendErr w 500 None ''UNKNOWN_ERROR'' (Some msg) s
      | Thrown v \<Rightarrow> sendErr w 500 None ''UNKNOWN_ERROR'' (Some v) s)"

subsection \<open>Forwarding with retry\<close>

text \<open>
  The \<^verbatim>\<open>while (true)\<close> of \<^verbatim>\<open>getServiceResponse\<close>, one iteration per attempt. The result
  is \<open>None\<close> when the promise resolves and \<open>Some e\<close> when it rejects with \<open>e\<close>: the
  \<^verbatim>\<open>throw\<close> in the \<^verbatim>\<open>catch\<close> block leaves the function.
\<close>

function getServiceResponse_loop ::
  "world \<Rightarrow> ApiGateway \<Rightarrow> request \<Rightarrow> string \<Rightarrow> int \<Rightarrow> headers \<Rightarrow> nat \<Rightarrow> io \<Rightarrow> jsError option \<times> io"
  where
  "getServiceResponse_loop w g req url startTime filteredHeaders attempt s =
     (let config = \<lparr>out_method = req_method req, out_url = url, out_headers = filteredHeaders,
                     out_data = req_body req, out_timeout = timeout g\<rparr>;
          s1 = emit (BackendRequest config) s
      in (case backend w attempt config of
            Inr r \<Rightarrow>
              (None, handleSuccessResponse w (resp_status r) (body_data (resp_data r))
                       (resp_headers r) s1)
          | Inl err \<Rightarrow>
              if \<not> shouldRetry (retryStrategy g) err attempt then
                (None, handleErrResponse w err s1)
              else if fst (Date_now w s1) - startTime \<ge> totalTimeout g then
                (Some (ApiGatewayError 504 ''GATEWAY_TIMEOUT'' ''Request timed out'' None),
                 snd (Date_now w s1))
              else
                getServiceResponse_loop w g req url startTime filteredHeaders (attempt + 1)
                  (delay w (retryStrategy g) (attempt + 1) (snd (Date_now w s1)))))"
  by pat_completeness auto
termination
proof (relation "measure (\<lambda>(w, g, req, url, startTime, fh, attempt, s).
                   nat (maxRetries (retryStrategy g) - int attempt))", goal_cases)
  case 1
  show ?case by simp
next
  case (2 w g req url startTime filteredHeaders attempt s x xa xb)
  then have "int attempt < maxRetries (retryStrategy g)"
    by (cases xb) (auto split: if_splits option.splits)
  then show ?case by simp
qed

definition getServiceResponse ::
  "world \<Rightarrow> ApiGateway \<Rightarrow> request \<Rightarrow> string \<Rightarrow> io \<Rightarrow> jsError option \<times> io" where
  "getServiceResponse w g req url s =
     (case Date_now w s of
        (startTime, s1) \<Rightarrow>
          getServiceResponse_loop w g req url startTime
            (filterRequestHeaders (Some (req_headers req))) 0 s1)"

text \<open>\<^verbatim>\<open>getServices\<close>: one GET to the registry; a rejection is thrown on.\<close>

definition getServices :: "world \<Rightarrow> ApiGateway \<Rightarrow> string \<Rightarrow> io \<Rightarrow> (jsError + Instance list) \<times> io" where
  "getServices w g type s =
     (registryGet w type (registryHeaders g),
      emit (RegistryGet type (registryHeaders g)) s)"

text \<open>
  \<^verbatim>\<open>this.loadBalancer.selectInstance(instances)\<close> followed by the read of
  \<^verbatim>\<open>service.host\<close>, for either balancer: the instance, or the \<^verbatim>\<open>TypeError\<close>.
\<close>

definition pickService ::
  "world \<Rightarrow> balancer \<Rightarrow> Instance list \<Rightarrow> io \<Rightarrow> (jsError + Instance) \<times> balancer \<times> io" where
  "pickService w lb instances s =
     (case lb of
        RoundRobin b \<Rightarrow>
          (case selectInstance b instances of
             Inl e \<Rightarrow> (Inl e, lb, s)
           | Inr (instance, b') \<Rightarrow> (Inr instance, RoundRobin b', s))
      | Random \<Rightarrow>
          (case Math_random w s of
             (r, s1) \<Rightarrow>
               (case RandomBalancer_selectInstance r instances of
                  Some instance \<Rightarrow> (Inr instance, lb, s1)
                | None \<Rightarrow>
                    (Inl (Error ''Cannot read properties of undefined (reading 'host')''), lb, s1))))"

text \<open>
  \<^verbatim>\<open>handleRequest\<close>. The \<^verbatim>\<open>try\<close> block catches what is thrown while it runs: the
  status gate, the awaited \<^verbatim>\<open>getServices\<close>, the selection. Its last statement returns
  the promise of \<^verbatim>\<open>getServiceResponse\<close> without awaiting it, so a rejection of that
  promise is the rejection of \<^verbatim>\<open>handleRequest\<close> and does not reach the \<^verbatim>\<open>catch\<close>.
\<close>

definition handleRequest ::
  "world \<Rightarrow> ApiGateway \<Rightarrow> request \<Rightarrow> string \<Rightarrow> string \<Rightarrow> io \<Rightarrow> jsError option \<times> ApiGateway \<times> io"
  where
  "handleRequest w g req serviceName remaining s =
     (if status g \<noteq> GATEWAY_ACTIVE then
        (None, g, handleErrResponse w (fromStatus (status g)) s)
      else
        (case getServices w g serviceName s of
           (Inl e, s1) \<Rightarrow> (None, g, handleErrResponse w e s1)
         | (Inr instances, s1) \<Rightarrow>
             (case pickService w (loadBalancer g) instances s1 of
                (Inl e, lb, s2) \<Rightarrow>
                  (None, g\<lparr>loadBalancer := lb\<rparr>, handleErrResponse w e s2)
              | (Inr service, lb, s2) \<Rightarrow>
                  (let targetUrl = ''https://'' @ host service @ '':'' @ inst_port service @
                                   ''/'' @ remaining
                   in (case getServiceResponse w g req targetUrl s2 of
                         (r, s3) \<Rightarrow> (r, g\<lparr>loadBalancer := lb\<rparr>, s3))))))"

subsection \<open>Registration\<close>

text \<open>
  \<^verbatim>\<open>register(port)\<close>. \<open>Inl\<close> is what it throws (no key, or a registry URL that does not
  parse); \<open>Inr\<close> is the boolean it returns. An unset or empty key is falsy. The state
  is written only after the POST has resolved.
\<close>

definition register ::
  "world \<Rightarrow> ApiGateway \<Rightarrow> int option \<Rightarrow> io \<Rightarrow> (jsError + bool) \<times> ApiGateway \<times> io" where
  "register w g p s =
     (case SERVICE_REGISTRATION_KEY w of
        None \<Rightarrow> (Inl (Error ''SERVICE_REGISTRATION_KEY is required to be set''), g, s)
      | Some key \<Rightarrow>
          if key = [] then
            (Inl (Error ''SERVICE_REGISTRATION_KEY is required to be set''), g, s)
          else
            (case newURL w ''/service'' (registryUrl g) of
               None \<Rightarrow> (Inl (Error (''Invalid registryUrl value: '' @ registryUrl g)), g, s)
             | Some url \<Rightarrow>
                 (let s1 = emit (RegistryPost url p key) (s\<lparr>posts := Suc (posts s)\<rparr>)
                  in (case registryPost w (posts s) of
                        Inl e \<Rightarrow> (Inr False, g, s1)
                      | Inr (serviceId, token) \<Rightarrow>
                          (Inr True,
                           g\<lparr>status := GATEWAY_ACTIVE,
                             port := p,
                             registryHeaders :=
                               Some \<lparr>x_service_id = serviceId, x_service_token = token\<rparr>,
                             healthCheckTimeout :=
                               (if healthChecks g then Some (healthCheckInterval g)
                                else healthCheckTimeout g)\<rparr>,
                           s1)))))"

text \<open>
  The \<^verbatim>\<open>while (true)\<close> of \<^verbatim>\<open>attemptReregister\<close>, from a given value of its counter
  \<open>attempts\<close>. A throw of \<open>register\<close> rejects the promise.
\<close>

function attemptReregister_loop ::
  "world \<Rightarrow> ApiGateway \<Rightarrow> nat \<Rightarrow> io \<Rightarrow> jsError option \<times> ApiGateway \<times> io" where
  "attemptReregister_loop w g attempts s =
     (case register w g (port g) s of
        (Inl e, g1, s1) \<Rightarrow> (Some e, g1, s1)
      | (Inr registered, g1, s1) \<Rightarrow>
          if registered then (None, g1\<lparr>status := GATEWAY_ACTIVE\<rparr>, s1)
          else if attempts \<ge> 3 then
            (None, g1\<lparr>status := SHUTTING_DOWN\<rparr>, emit EmitSIGTERM s1)
          else
            attemptReregister_loop w g1 (attempts + 1)
              (delay w (retryStrategy g1) (attempts + 1) s1))"
  by pat_completeness auto
termination
  by (relation "measure (\<lambda>(w, g, attempts, s). 3 - attempts)") auto

definition attemptReregister ::
  "world \<Rightarrow> ApiGateway \<Rightarrow> io \<Rightarrow> jsError option \<times> ApiGateway \<times> io" where
  "attemptReregister w g s = attemptReregister_loop w g 0 s"

text \<open>The registry calls among the events of a run.\<close>

fun isRegistryPost :: "event \<Rightarrow> bool" where
  "isRegistryPost (RegistryPost url p key) = True"
| "isRegistryPost _ = False"

definition registerAttempts :: "io \<Rightarrow> nat" where
  "registerAttempts s = length (filter isRegistryPost (trace s))"

declare getServiceResponse_loop.simps [simp del]
declare attemptReregister_loop.simps [simp del]

subsection \<open>Reading a run\<close>

text \<open>The outbound calls among the events, and the configurations of the backend calls.\<close>

fun isOutbound :: "event \<Rightarrow> bool" where
  "isOutbound (RegistryPost url p key) = True"
| "isOutbound (RegistryGet type h) = True"
| "isOutbound (BackendRequest config) = True"
| "isOutbound _ = False"

fun backendRequests :: "event list \<Rightarrow> outboundRequest list" where
  "backendRequests [] = []"
| "backendRequests (BackendRequest config # es) = config # backendRequests es"
| "backendRequests (e # es) = backendRequests es"

subsection \<open>Concrete inputs\<close>

text \<open>The gateway as its constructor leaves it when called with no options and no
  \<^verbatim>\<open>REGISTRY_URL\<close> in the environment.\<close>

definition ApiGateway_new :: ApiGateway where
  "ApiGateway_new =
     \<lparr>registryUrl = ''http://localhost:3002'', port = None, status = GATEWAY_STARTING,
      timeout = 5000, healthChecks = True, healthCheckInterval = 10000,
      healthCheckTimeout = None, healthCheckFailStrategy = TryAgain, totalTimeout = 10000,
      retryStrategy = RetryStrategy_default, registryHeaders = None, loadBalancer = Random\<rparr>"

definition example_instance :: "string \<Rightarrow> Instance" where
  "example_instance i =
     \<lparr>inst_id = i, serviceType = ''products'', host = ''localhost'', inst_port = ''3001'',
      healthy = True, created = 0, lastUpdated = 0\<rparr>"

definition example_request :: request where
  "example_request =
     \<lparr>req_method = ''GET'',
      req_headers = [(''Authorization'', HString ''Bearer abc''),
                     (''keep-alive'', HString ''timeout=5''),
                     (''accept'', HString ''*/*'')],
      req_body = None\<rparr>"

definition example_headers :: headers where
  "example_headers =
     [(''x-request-id'', HString ''1234''), (''keep-alive'', HString ''timeout=5, max=200''),
      (''X-Internal-Trace'', HString ''t'')]"

definition example_success :: axiosResponse where
  "example_success =
     \<lparr>resp_status = 200, resp_headers = Some example_headers,
      resp_data = \<lparr>body_success = True, body_timestamp = Some 1,
                   body_data = Some (JObj [(''message'', JStr ''ok'')]), body_error = None\<rparr>\<rparr>"

text \<open>A backend answer with an error status, as \<^verbatim>\<open>axios\<close> rejects with it.\<close>

definition backend_error :: "int \<Rightarrow> jsError" where
  "backend_error st =
     AxiosError (Some ''ERR_BAD_RESPONSE'')
       (Some \<lparr>resp_status = st, resp_headers = Some example_headers,
              resp_data = \<lparr>body_success = False, body_timestamp = Some 1, body_data = None,
                           body_error = Some (ErrorObject ''BROKEN'' (Some ''backend failed''))\<rparr>\<rparr>)
       (Some ''[object Object]'') ''Request failed''"

text \<open>
  An outside whose clock advances by \<open>ms\<close> at every read, whose registry answers every
  POST with \<open>reg\<close> and every query with one instance, and whose backend answers the
  \<open>n\<close>-th call with \<open>answers n\<close>.
\<close>

definition example_world ::
  "int \<Rightarrow> (jsError + (string \<times> string)) \<Rightarrow> (nat \<Rightarrow> jsError + axiosResponse) \<Rightarrow> world" where
  "example_world ms reg answers =
     \<lparr>SERVICE_REGISTRATION_KEY = Some ''abc123'',
      newURL = (\<lambda>path base. Some (base @ path)),
      dateNow = (\<lambda>n. int n * ms),
      mathRandom = (\<lambda>n. 0),
      registryPost = (\<lambda>n. reg),
      registryGet = (\<lambda>type h. Inr [example_instance ''1'']),
      backend = (\<lambda>n config. answers n)\<rparr>"

section \<open>Properties of the retry policy\<close>

text \<open>
  C2, as the code has it. \<open>shouldRetry e a\<close> holds exactly when \<open>a < maxRetries\<close> and
  \<open>e\<close> is a transport timeout, or an HTTP error whose response status is retryable, or
  an \<^verbatim>\<open>ApiGatewayError\<close> whose status is retryable. Every other error is never retried.
\<close>

theorem shouldRetry_iff:
  "shouldRetry rs e a \<longleftrightarrow>
     int a < maxRetries rs \<and>
     (spec_transport_timeout e \<or> spec_retryable_http rs e \<or> gateway_retryable rs e)"
  by (cases e)
     (auto simp: spec_transport_timeout_def spec_retryable_http_def gateway_retryable_def
           split: option.splits)

text \<open>
  C2 as the specification states it fails: with the default policy an
  \<^verbatim>\<open>ApiGatewayError\<close> of status 500 is retried at attempt 1, and it is neither a
  transport timeout nor an HTTP error carrying a response.
\<close>

theorem shouldRetry_gateway_error_counterexample:
  "shouldRetry RetryStrategy_default (ApiGatewayError 500 ''err'' '''' None) 1 \<and>
   \<not> spec_transport_timeout (ApiGatewayError 500 ''err'' '''' None) \<and>
   \<not> spec_retryable_http RetryStrategy_default (ApiGatewayError 500 ''err'' '''' None)"
  by (simp add: RetryStrategy_default_def spec_transport_timeout_def spec_retryable_http_def)

text \<open>
  C8, as the code has it. With \<open>r\<close> and \<open>r'\<close> two values of \<^verbatim>\<open>Math.random()\<close>: the sleep
  of \<open>delay(a)\<close> is \<open>min(maxDelay, baseDelay * 2^a)\<close> plus a jitter in \<open>[0, 10)\<close>, so it
  is at most \<open>maxDelay + 10\<close>; and when \<open>baseDelay\<close> is not negative the first summand
  does not decrease with \<open>a\<close>, so that the next sleep is at least as long under the same
  jitter, and at most 10 ms shorter under any other.
\<close>

theorem delay_bounds:
  assumes "0 \<le> r" and "r < 1" and "0 \<le> r'" and "r' < 1"
  shows "delay_ms rs a r = min (maxDelay rs) (baseDelay rs * 2 ^ a) + jitter r \<and>
         0 \<le> jitter r \<and> jitter r < 10 \<and>
         delay_ms rs a r \<le> maxDelay rs + 10 \<and>
         (0 \<le> baseDelay rs \<longrightarrow>
            exponentialDelay rs a \<le> exponentialDelay rs (Suc a) \<and>
            delay_ms rs a r \<le> delay_ms rs (Suc a) r \<and>
            delay_ms rs (Suc a) r' \<ge> delay_ms rs a r - 10)"
proof -
  have j: "0 \<le> jitter r" "jitter r < 10"
    using assms by (simp_all add: jitter_def)
  have cap: "exponentialDelay rs a \<le> maxDelay rs"
    by (simp add: exponentialDelay_def)
  have mono: "exponentialDelay rs a \<le> exponentialDelay rs (Suc a)" if "0 \<le> baseDelay rs"
  proof -
    have "baseDelay rs * 2 ^ a \<le> baseDelay rs * 2 ^ Suc a"
      using that by (simp add: mult_left_mono)
    then show ?thesis
      unfolding exponentialDelay_def by (rule min.mono[OF order_refl])
  qed
  have up: "delay_ms rs (Suc a) r' \<ge> delay_ms rs a r - 10" if "0 \<le> baseDelay rs"
    using mono[OF that] j assms(3) by (simp add: delay_ms_def jitter_def)
  show ?thesis
    using j cap mono up by (auto simp: delay_ms_def exponentialDelay_def)
qed

theorem delay_bounds_witness:
  "(0::real) \<le> 1/2 \<and> (1/2::real) < 1 \<and> 0 \<le> baseDelay RetryStrategy_default \<and>
   delay_ms RetryStrategy_default 2 (1/2) = 4005 \<and>
   delay_ms RetryStrategy_default 2 (1/2) \<le> maxDelay RetryStrategy_default + 10 \<and>
   exponentialDelay RetryStrategy_default 2 \<le> exponentialDelay RetryStrategy_default (Suc 2) \<and>
   delay_ms RetryStrategy_default (Suc 2) 0 \<ge> delay_ms RetryStrategy_default 2 (1/2) - 10"
  using delay_bounds[of "1/2" 0 RetryStrategy_default 2]
  by (simp add: RetryStrategy_default_def delay_ms_def exponentialDelay_def jitter_def)

text \<open>
  C8 as the specification states it fails. With \<open>baseDelay = 1\<close>, a jitter of 9 ms at
  attempt 0 and none at attempt 1, the second sleep (2 ms) is shorter than the first
  (10 ms); and with a negative \<open>baseDelay\<close> the first summand itself decreases.
\<close>

theorem delay_monotone_counterexample:
  "delay_ms (RetryStrategy_default\<lparr>baseDelay := 1\<rparr>) 1 0
     < delay_ms (RetryStrategy_default\<lparr>baseDelay := 1\<rparr>) 0 (9/10) \<and>
   exponentialDelay (RetryStrategy_default\<lparr>baseDelay := -1\<rparr>) 1
     < exponentialDelay (RetryStrategy_default\<lparr>baseDelay := -1\<rparr>) 0"
  by (simp add: RetryStrategy_default_def delay_ms_def exponentialDelay_def jitter_def)

section \<open>Properties of the round-robin balancer\<close>

lemma selectInstance_step:
  assumes "instances \<noteq> []" and "T = serviceType (hd instances)"
  shows "selectInstance b instances =
     Inr (instances ! cursorOf b T (length instances),
          b(T \<mapsto> Suc (cursorOf b T (length instances)) mod length instances))"
  using assms
  by (cases instances) (auto simp: selectInstance_def Let_def cursorOf_def split: option.splits)

lemma upt_Suc_shift: "[0..<Suc k] = 0 # map Suc [0..<k]"
  by (simp add: upt_conv_Cons map_Suc_upt del: upt_Suc)

text \<open>From a stored cursor \<open>c\<close> in range, \<open>k\<close> calls pick \<open>c, c + 1, \<dots>\<close> modulo the length.\<close>

lemma selectMany_picks:
  assumes "xs \<noteq> []" and "T = serviceType (hd xs)" and "b T = Some c" and "c < length xs"
  shows "selectMany b xs k =
     Inr (map (\<lambda>j. xs ! ((c + j) mod length xs)) [0..<k], b(T \<mapsto> (c + k) mod length xs))"
  using assms(3,4)
proof (induction k arbitrary: b c)
  case 0
  then show ?case by (simp add: map_upd_triv)
next
  case (Suc k)
  let ?n = "length xs"
  define b1 where "b1 = b(T \<mapsto> Suc c mod ?n)"
  have cur: "cursorOf b T ?n = c"
    using Suc.prems by (simp add: cursorOf_def)
  have step: "selectInstance b xs = Inr (xs ! c, b1)"
    unfolding b1_def using selectInstance_step[OF assms(1,2), of b] by (simp add: cur)
  have lt: "Suc c mod ?n < ?n" using assms(1) by simp
  have b1: "b1 T = Some (Suc c mod ?n)" by (simp add: b1_def)
  have idx: "\<And>j. (Suc c mod ?n + j) mod ?n = Suc (c + j) mod ?n"
    by (simp add: mod_add_left_eq)
  have IH0: "selectMany b1 xs k =
     Inr (map (\<lambda>j. xs ! ((Suc c mod ?n + j) mod ?n)) [0..<k],
          b1(T \<mapsto> (Suc c mod ?n + k) mod ?n))"
    by (rule Suc.IH) (rule b1, rule lt)
  have IH: "selectMany b1 xs k =
     Inr (map (\<lambda>j. xs ! (Suc (c + j) mod ?n)) [0..<k], b1(T \<mapsto> Suc (c + k) mod ?n))"
    using IH0 unfolding idx .
  have m: "map (\<lambda>j. xs ! ((c + j) mod ?n)) [0..<Suc k] =
        xs ! c # map (\<lambda>j. xs ! (Suc (c + j) mod ?n)) [0..<k]"
    unfolding upt_Suc_shift using Suc.prems(2) by (simp add: comp_def)
  have upd: "b1(T \<mapsto> Suc (c + k) mod ?n) = b(T \<mapsto> Suc (c + k) mod ?n)"
    unfolding b1_def by simp
  show ?case
    unfolding selectMany.simps step m by (auto simp add: IH upd fun_eq_iff)
qed

text \<open>From any balancer: the first call reads the clamped cursor, the rest rotate.\<close>

lemma selectMany_general:
  assumes "xs \<noteq> []" and "T = serviceType (hd xs)"
  shows "selectMany b xs k =
     Inr (map (\<lambda>j. xs ! ((cursorOf b T (length xs) + j) mod length xs)) [0..<k],
          if k = 0 then b else b(T \<mapsto> (cursorOf b T (length xs) + k) mod length xs))"
proof (cases k)
  case 0
  then show ?thesis by simp
next
  case (Suc k')
  let ?n = "length xs"
  define c where "c = cursorOf b T ?n"
  define b1 where "b1 = b(T \<mapsto> Suc c mod ?n)"
  have n: "0 < ?n" using assms(1) by simp
  have c: "c < ?n" using n by (auto simp: c_def cursorOf_def split: option.splits)
  have step: "selectInstance b xs = Inr (xs ! c, b1)"
    unfolding b1_def c_def using selectInstance_step[OF assms, of b] by simp
  have lt: "Suc c mod ?n < ?n" using n by simp
  have b1: "b1 T = Some (Suc c mod ?n)" by (simp add: b1_def)
  have idx: "\<And>j. (Suc c mod ?n + j) mod ?n = Suc (c + j) mod ?n"
    by (simp add: mod_add_left_eq)
  have rest: "selectMany b1 xs k' =
     Inr (map (\<lambda>j. xs ! (Suc (c + j) mod ?n)) [0..<k'], b1(T \<mapsto> Suc (c + k') mod ?n))"
    using selectMany_picks[of xs T b1 "Suc c mod ?n" k', OF assms b1 lt] by (simp add: idx)
  have m: "map (\<lambda>j. xs ! ((c + j) mod ?n)) [0..<Suc k'] =
        xs ! c # map (\<lambda>j. xs ! (Suc (c + j) mod ?n)) [0..<k']"
    unfolding upt_Suc_shift using c by (simp add: comp_def)
  have upd: "b1(T \<mapsto> Suc (c + k') mod ?n) = b(T \<mapsto> Suc (c + k') mod ?n)"
    unfolding b1_def by simp
  show ?thesis
    unfolding Suc selectMany.simps step c_def[symmetric] m by (simp add: rest upd)
qed

text \<open>
  C4. For a non-empty list of \<open>n\<close> instances whose first element has service type \<open>T\<close>:
  one call returns the instance at the cursor read for \<open>T\<close> (the stored one, 0 when
  absent or not below \<open>n\<close>) and stores that index plus one modulo \<open>n\<close>, a value below
  \<open>n\<close>; \<open>k\<close> calls in a row on a new balancer pick the elements \<open>0 mod n, 1 mod n, \<dots>\<close>,
  that is the \<open>j\<close>-th pick is element \<open>(j - 1) mod n\<close>; and on any balancer they rotate
  from the cursor the first call reads.
\<close>

theorem roundRobin_rotation:
  assumes "instances \<noteq> []" and "T = serviceType (hd instances)" and "n = length instances"
  shows "selectInstance b instances =
           Inr (instances ! cursorOf b T n, b(T \<mapsto> (cursorOf b T n + 1) mod n)) \<and>
         cursorOf b T n < n \<and> (cursorOf b T n + 1) mod n < n \<and>
         selectMany RoundRobinBalancer_new instances k =
           Inr (map (\<lambda>j. instances ! (j mod n)) [0..<k],
                if k = 0 then RoundRobinBalancer_new
                else RoundRobinBalancer_new(T \<mapsto> k mod n)) \<and>
         selectMany b instances k =
           Inr (map (\<lambda>j. instances ! ((cursorOf b T n + j) mod n)) [0..<k],
                if k = 0 then b else b(T \<mapsto> (cursorOf b T n + k) mod n))"
proof -
  have n: "0 < n" using assms by simp
  have one: "selectInstance b instances =
           Inr (instances ! cursorOf b T n, b(T \<mapsto> (cursorOf b T n + 1) mod n))"
    using selectInstance_step[OF assms(1,2), of b] assms(3) by simp
  have range: "cursorOf b T n < n"
    using n by (auto simp: cursorOf_def split: option.splits)
  have stored: "(cursorOf b T n + 1) mod n < n"
    using n by simp
  have fresh0: "\<And>m. cursorOf RoundRobinBalancer_new T m = 0"
    by (simp add: cursorOf_def RoundRobinBalancer_new_def)
  have fresh: "selectMany RoundRobinBalancer_new instances k =
           Inr (map (\<lambda>j. instances ! (j mod n)) [0..<k],
                if k = 0 then RoundRobinBalancer_new
                else RoundRobinBalancer_new(T \<mapsto> k mod n))"
    using selectMany_general[OF assms(1,2), of RoundRobinBalancer_new k] assms(3)
    by (simp add: fresh0)
  have any: "selectMany b instances k =
           Inr (map (\<lambda>j. instances ! ((cursorOf b T n + j) mod n)) [0..<k],
                if k = 0 then b else b(T \<mapsto> (cursorOf b T n + k) mod n))"
    using selectMany_general[OF assms(1,2), of b k] assms(3) by simp
  show ?thesis using one range stored fresh any by blast
qed

theorem roundRobin_rotation_witness:
  "[example_instance ''1'', example_instance ''2'', example_instance ''3''] \<noteq> [] \<and>
   selectMany RoundRobinBalancer_new
     [example_instance ''1'', example_instance ''2'', example_instance ''3''] 4 =
     Inr ([example_instance ''1'', example_instance ''2'', example_instance ''3'',
           example_instance ''1''],
          RoundRobinBalancer_new(''products'' \<mapsto> 1)) \<and>
   selectInstance (RoundRobinBalancer_new(''products'' \<mapsto> 7))
     [example_instance ''1'', example_instance ''2'', example_instance ''3''] =
     Inr (example_instance ''1'', RoundRobinBalancer_new(''products'' \<mapsto> 1))"
proof -
  have T: "''products'' = serviceType (hd [example_instance ''1'', example_instance ''2'',
                                           example_instance ''3''])"
    by (simp add: example_instance_def)
  have c: "cursorOf (RoundRobinBalancer_new(''products'' \<mapsto> 7)) ''products'' 3 = 0"
    by (simp add: cursorOf_def)
  have u: "[0..<4] = [0, 1, 2, 3::nat]"
    by (simp add: upt_rec)
  show ?thesis
    using roundRobin_rotation[OF _ T, of 3 "RoundRobinBalancer_new(''products'' \<mapsto> 7)" 4]
    by (simp add: c u)
qed

section \<open>Properties of the proxy pipeline\<close>

text \<open>
  C1. When the status is not \<open>GATEWAY_ACTIVE\<close>, \<open>handleRequest\<close> resolves after writing
  one thing on the response: status 503 with the envelope \<open>success = false\<close>,
  \<open>error.code\<close> the status string and the message of that status; the gateway is
  unchanged and no call to the registry or to a backend is added to the run. Hence a run
  that gains an outbound call started from \<open>GATEWAY_ACTIVE\<close>. The messages of the four
  other statuses are pairwise different.
\<close>

theorem handleRequest_gate:
  "(status g \<noteq> GATEWAY_ACTIVE \<longrightarrow>
      handleRequest w g req serviceName remaining s =
        (None, g,
         s\<lparr>trace := trace s @
               [ResStatusJson 503
                  \<lparr>success = False, timestamp = dateNow w (clockReads s), data = None,
                   error = Some \<lparr>code = statusString (status g),
                                 message = Some (fromStatus_message (status g))\<rparr>\<rparr>],
           clockReads := Suc (clockReads s)\<rparr>) \<and>
      filter isOutbound (trace (snd (snd (handleRequest w g req serviceName remaining s)))) =
        filter isOutbound (trace s)) \<and>
   (filter isOutbound (trace (snd (snd (handleRequest w g req serviceName remaining s)))) \<noteq>
        filter isOutbound (trace s) \<longrightarrow> status g = GATEWAY_ACTIVE) \<and>
   inj_on fromStatus_message {st. st \<noteq> GATEWAY_ACTIVE}"
proof -
  have gate: "handleRequest w g req serviceName remaining s =
        (None, g,
         s\<lparr>trace := trace s @
               [ResStatusJson 503
                  \<lparr>success = False, timestamp = dateNow w (clockReads s), data = None,
                   error = Some \<lparr>code = statusString (status g),
                                 message = Some (fromStatus_message (status g))\<rparr>\<rparr>],
           clockReads := Suc (clockReads s)\<rparr>)"
    if "status g \<noteq> GATEWAY_ACTIVE"
    using that
    by (simp add: handleRequest_def handleErrResponse_def fromStatus_def sendErr_def
                  Date_now_def emit_def)
  have quiet: "filter isOutbound (trace (snd (snd (handleRequest w g req serviceName remaining s)))) =
        filter isOutbound (trace s)" if "status g \<noteq> GATEWAY_ACTIVE"
    by (simp add: gate[OF that])
  have inj: "inj_on fromStatus_message {st. st \<noteq> GATEWAY_ACTIVE}"
  proof (rule inj_onI)
    fix x y
    assume "x \<in> {st. st \<noteq> GATEWAY_ACTIVE}" "y \<in> {st. st \<noteq> GATEWAY_ACTIVE}"
      and "fromStatus_message x = fromStatus_message y"
    then show "x = y" by (cases x; cases y) simp_all
  qed
  show ?thesis using gate quiet inj by blast
qed

theorem handleRequest_gate_witness:
  "status (ApiGateway_new\<lparr>status := SHUTTING_DOWN\<rparr>) \<noteq> GATEWAY_ACTIVE \<and>
   handleRequest (example_world 1 (Inr (''id'', ''token'')) (\<lambda>n. Inr example_success))
       (ApiGateway_new\<lparr>status := SHUTTING_DOWN\<rparr>) example_request ''products'' ''all'' io_start =
     (None, ApiGateway_new\<lparr>status := SHUTTING_DOWN\<rparr>,
      \<lparr>trace = [ResStatusJson 503
                  \<lparr>success = False, timestamp = 0, data = None,
                   error = Some \<lparr>code = ''SHUTTING_DOWN'',
                                 message = Some ''Gateway has encountered an error and is shutting down''\<rparr>\<rparr>],
       clockReads = 1, randomReads = 0, posts = 0\<rparr>)"
  using handleRequest_gate[of "ApiGateway_new\<lparr>status := SHUTTING_DOWN\<rparr>"
          "example_world 1 (Inr (''id'', ''token'')) (\<lambda>n. Inr example_success)"
          example_request "''products''" "''all''" io_start]
  by (simp add: io_start_def example_world_def)

text \<open>What each step adds to the run.\<close>

lemma backendRequests_append:
  "backendRequests (xs @ ys) = backendRequests xs @ backendRequests ys"
  by (induction xs rule: backendRequests.induct) simp_all

lemma trace_emit: "trace (emit e s) = trace s @ [e]"
  by (simp add: emit_def)

lemma trace_Date_now: "trace (snd (Date_now w s)) = trace s"
  by (simp add: Date_now_def)

lemma trace_delay: "\<exists>d. trace (delay w rs a s) = trace s @ [Sleep d]"
  by (simp add: delay_def Math_random_def emit_def)

lemma trace_sendErr:
  "trace (sendErr w st d c m s) =
     trace s @ [ResStatusJson st \<lparr>success = False, timestamp = dateNow w (clockReads s),
                 data = d, error = Some \<lparr>code = c, message = m\<rparr>\<rparr>]"
  by (simp add: sendErr_def Date_now_def emit_def)

lemma handleSuccessResponse_eq:
  "handleSuccessResponse w st d h s =
     s\<lparr>trace := trace s @
           [ResSet (filterResponseHeaders h),
            ResStatusJson st \<lparr>success = True, timestamp = dateNow w (clockReads s),
                              data = d, error = None\<rparr>],
       clockReads := Suc (clockReads s)\<rparr>"
  by (simp add: handleSuccessResponse_def Date_now_def emit_def)

text \<open>
  C3. At whatever attempt the outbound call resolves with a response \<open>r\<close>, the loop ends
  there: after the call it sets the filtered headers and sends the backend's status with
  the envelope \<open>success = true\<close>, the reading of the gateway's clock at that moment as
  timestamp, the backend's \<open>data\<close>, and no \<open>error\<close>. The backend's own timestamp
  \<open>body_timestamp\<close> occurs nowhere in what is sent. The second part is the whole
  \<open>handleRequest\<close> when the first call resolves.
\<close>

theorem success_response:
  "(backend w a \<lparr>out_method = req_method req, out_url = url, out_headers = fh,
                 out_data = req_body req, out_timeout = timeout g\<rparr> = Inr r \<longrightarrow>
      getServiceResponse_loop w g req url st fh a s =
        (None,
         s\<lparr>trace := trace s @
               [BackendRequest \<lparr>out_method = req_method req, out_url = url, out_headers = fh,
                                 out_data = req_body req, out_timeout = timeout g\<rparr>,
                ResSet (filterResponseHeaders (resp_headers r)),
                ResStatusJson (resp_status r)
                  \<lparr>success = True, timestamp = dateNow w (clockReads s),
                   data = body_data (resp_data r), error = None\<rparr>],
           clockReads := Suc (clockReads s)\<rparr>)) \<and>
   (status g = GATEWAY_ACTIVE \<and>
    registryGet w serviceName (registryHeaders g) = Inr instances \<and>
    pickService w (loadBalancer g) instances
      (emit (RegistryGet serviceName (registryHeaders g)) s0) = (Inr service, lb, s2) \<and>
    backend w 0 \<lparr>out_method = req_method req,
                 out_url = ''https://'' @ host service @ '':'' @ inst_port service @ ''/'' @ remaining,
                 out_headers = filterRequestHeaders (Some (req_headers req)),
                 out_data = req_body req, out_timeout = timeout g\<rparr> = Inr r \<longrightarrow>
      handleRequest w g req serviceName remaining s0 =
        (None, g\<lparr>loadBalancer := lb\<rparr>,
         s2\<lparr>trace := trace s2 @
               [BackendRequest
                  \<lparr>out_method = req_method req,
                   out_url = ''https://'' @ host service @ '':'' @ inst_port service @ ''/'' @ remaining,
                   out_headers = filterRequestHeaders (Some (req_headers req)),
                   out_data = req_body req, out_timeout = timeout g\<rparr>,
                ResSet (filterResponseHeaders (resp_headers r)),
                ResStatusJson (resp_status r)
                  \<lparr>success = True, timestamp = dateNow w (Suc (clockReads s2)),
                   data = body_data (resp_data r), error = None\<rparr>],
            clockReads := Suc (Suc (clockReads s2))\<rparr>))"
proof -
  have loop: "getServiceResponse_loop w g req url st fh a s =
        (None,
         s\<lparr>trace := trace s @
               [BackendRequest \<lparr>out_method = req_method req, out_url = url, out_headers = fh,
                                 out_data = req_body req, out_timeout = timeout g\<rparr>,
                ResSet (filterResponseHeaders (resp_headers r)),
                ResStatusJson (resp_status r)
                  \<lparr>success = True, timestamp = dateNow w (clockReads s),
                   data = body_data (resp_data r), error = None\<rparr>],
           clockReads := Suc (clockReads s)\<rparr>)"
    if "backend w a \<lparr>out_method = req_method req, out_url = url, out_headers = fh,
                      out_data = req_body req, out_timeout = timeout g\<rparr> = Inr r"
    for url st fh a s
    using that
    by (subst getServiceResponse_loop.simps)
       (simp add: Let_def handleSuccessResponse_eq emit_def)
  have whole: "handleRequest w g req serviceName remaining s0 =
        (None, g\<lparr>loadBalancer := lb\<rparr>,
         s2\<lparr>trace := trace s2 @
               [BackendRequest
                  \<lparr>out_method = req_method req,
                   out_url = ''https://'' @ host service @ '':'' @ inst_port service @ ''/'' @ remaining,
                   out_headers = filterRequestHeaders (Some (req_headers req)),
                   out_data = req_body req, out_timeout = timeout g\<rparr>,
                ResSet (filterResponseHeaders (resp_headers r)),
                ResStatusJson (resp_status r)
                  \<lparr>success = True, timestamp = dateNow w (Suc (clockReads s2)),
                   data = body_data (resp_data r), error = None\<rparr>],
            clockReads := Suc (Suc (clockReads s2))\<rparr>)"
    if "status g = GATEWAY_ACTIVE"
      and "registryGet w serviceName (registryHeaders g) = Inr instances"
      and "pickService w (loadBalancer g) instances
             (emit (RegistryGet serviceName (registryHeaders g)) s0) = (Inr service, lb, s2)"
      and "backend w 0 \<lparr>out_method = req_method req,
                 out_url = ''https://'' @ host service @ '':'' @ inst_port service @ ''/'' @ remaining,
                 out_headers = filterRequestHeaders (Some (req_headers req)),
                 out_data = req_body req, out_timeout = timeout g\<rparr> = Inr r"
    using that(1,2,3)
      loop[OF that(4), of "dateNow w (clockReads s2)" "s2\<lparr>clockReads := Suc (clockReads s2)\<rparr>"]
    by (simp add: handleRequest_def getServices_def getServiceResponse_def Date_now_def Let_def)
  show ?thesis using loop whole by blast
qed

theorem success_response_witness:
  "backend (example_world 1 (Inr (''id'', ''token'')) (\<lambda>n. Inr example_success)) 0
     \<lparr>out_method = ''GET'', out_url = ''https://localhost:3001/all'',
      out_headers = [(''keep-alive'', HString ''timeout=5''), (''accept'', HString ''*/*'')],
      out_data = None, out_timeout = 5000\<rparr> = Inr example_success \<and>
   handleRequest (example_world 1 (Inr (''id'', ''token'')) (\<lambda>n. Inr example_success))
       (ApiGateway_new\<lparr>status := GATEWAY_ACTIVE\<rparr>) example_request ''products'' ''all'' io_start =
     (None, ApiGateway_new\<lparr>status := GATEWAY_ACTIVE\<rparr>,
      \<lparr>trace =
         [RegistryGet ''products'' None,
          BackendRequest
            \<lparr>out_method = ''GET'', out_url = ''https://localhost:3001/all'',
             out_headers = [(''keep-alive'', HString ''timeout=5''), (''accept'', HString ''*/*'')],
             out_data = None, out_timeout = 5000\<rparr>,
          ResSet [(''x-request-id'', HString ''1234'')],
          ResStatusJson 200
            \<lparr>success = True, timestamp = 1,
             data = Some (JObj [(''message'', JStr ''ok'')]), error = None\<rparr>],
       clockReads = 2, randomReads = 1, posts = 0\<rparr>)"
proof -
  let ?w = "example_world 1 (Inr (''id'', ''token'')) (\<lambda>n. Inr example_success)"
  let ?g = "ApiGateway_new\<lparr>status := GATEWAY_ACTIVE\<rparr>"
  have low: "toLowerCase ''Authorization'' = ''authorization''"
    "toLowerCase ''keep-alive'' = ''keep-alive''" "toLowerCase ''accept'' = ''accept''"
    "toLowerCase ''x-request-id'' = ''x-request-id''"
    "toLowerCase ''X-Internal-Trace'' = ''x-internal-trace''"
    by (simp_all add: toLowerCase_def toLowerCase_char_def)
  have pick: "pickService ?w (loadBalancer ?g) [example_instance ''1'']
                (emit (RegistryGet ''products'' (registryHeaders ?g)) io_start) =
              (Inr (example_instance ''1''), Random,
               \<lparr>trace = [RegistryGet ''products'' None], clockReads = 0, randomReads = 1,
                posts = 0\<rparr>)"
    by (simp add: pickService_def ApiGateway_new_def example_world_def Math_random_def
                  RandomBalancer_selectInstance_def emit_def io_start_def)
  have fr: "filterRequestHeaders (Some (req_headers example_request)) =
              [(''keep-alive'', HString ''timeout=5''), (''accept'', HString ''*/*'')]"
    by (simp add: filterRequestHeaders_def example_request_def low EXCLUDED_REQUEST_HEADERS_def)
  have fs: "filterResponseHeaders (resp_headers example_success) =
              [(''x-request-id'', HString ''1234'')]"
    by (simp add: filterResponseHeaders_def example_success_def example_headers_def low
                  EXCLUDED_RESPONSE_HEADERS_def startsWith_def)
  show ?thesis
    using success_response[of ?w 0 example_request "''https://localhost:3001/all''"
            "[(''keep-alive'', HString ''timeout=5''), (''accept'', HString ''*/*'')]"
            ?g example_success 0 io_start "''products''" "[example_instance ''1'']"
            io_start "example_instance ''1''" Random
            "\<lparr>trace = [RegistryGet ''products'' None], clockReads = 0, randomReads = 1,
                posts = 0\<rparr>" "''all''"]
          pick
    by (simp add: fr fs)
       (simp add: example_world_def ApiGateway_new_def example_request_def example_instance_def
                  example_success_def)
qed

lemma backendRequests_handleErrResponse:
  "backendRequests (trace (handleErrResponse w e s)) = backendRequests (trace s)"
  by (simp add: handleErrResponse_def trace_sendErr trace_emit backendRequests_append Let_def
           split: jsError.splits option.splits errorField.splits)

lemma backendRequests_delay:
  "backendRequests (trace (delay w rs a s)) = backendRequests (trace s)"
  using trace_delay[of w rs a s] by (auto simp: backendRequests_append)

text \<open>Every backend call the loop adds to the run carries the header object it was given.\<close>

lemma loop_headers:
  "\<forall>c \<in> set (backendRequests (trace (snd (getServiceResponse_loop w g req url st fh a s)))).
      c \<in> set (backendRequests (trace s)) \<or> out_headers c = fh"
proof (induction w g req url st fh a s rule: getServiceResponse_loop.induct)
  case (1 w g req url startTime filteredHeaders attempt s)
  let ?config = "\<lparr>out_method = req_method req, out_url = url, out_headers = filteredHeaders,
                   out_data = req_body req, out_timeout = timeout g\<rparr>"
  let ?s1 = "emit (BackendRequest ?config) s"
  have s1: "backendRequests (trace ?s1) = backendRequests (trace s) @ [?config]"
    by (simp add: trace_emit backendRequests_append)
  show ?case
  proof (cases "backend w attempt ?config")
    case (Inr r)
    then show ?thesis
      by (subst getServiceResponse_loop.simps)
         (auto simp: Let_def handleSuccessResponse_eq backendRequests_append s1)
  next
    case (Inl err)
    show ?thesis
    proof (cases "shouldRetry (retryStrategy g) err attempt")
      case False
      with Inl show ?thesis
        by (subst getServiceResponse_loop.simps)
           (auto simp: Let_def backendRequests_handleErrResponse s1)
    next
      case True
      show ?thesis
      proof (cases "fst (Date_now w ?s1) - startTime \<ge> totalTimeout g")
        case timed_out: True
        with Inl True show ?thesis
          by (subst getServiceResponse_loop.simps)
             (auto simp: Let_def trace_Date_now s1)
      next
        case False
        have IH: "\<forall>c \<in> set (backendRequests (trace (snd (getServiceResponse_loop w g req url
                      startTime filteredHeaders (attempt + 1)
                      (delay w (retryStrategy g) (attempt + 1) (snd (Date_now w ?s1))))))).
                    c \<in> set (backendRequests (trace (delay w (retryStrategy g) (attempt + 1)
                                  (snd (Date_now w ?s1))))) \<or> out_headers c = filteredHeaders"
          using "1.IH"[OF refl refl Inl _ False] True by simp
        have eq: "getServiceResponse_loop w g req url startTime filteredHeaders attempt s =
                  getServiceResponse_loop w g req url startTime filteredHeaders (attempt + 1)
                      (delay w (retryStrategy g) (attempt + 1) (snd (Date_now w ?s1)))"
          using Inl True False by (subst getServiceResponse_loop.simps) (simp add: Let_def)
        show ?thesis
          unfolding eq using IH
          by (auto simp: backendRequests_delay trace_Date_now s1)
      qed
    qed
  qed
qed

lemma backendRequests_pickService:
  "pickService w lb instances s = (r, lb', s') \<Longrightarrow> trace s' = trace s"
  by (auto simp: pickService_def Math_random_def split: balancer.splits sum.splits
        prod.splits option.splits)

lemma handleRequest_headers:
  "\<forall>c \<in> set (backendRequests (trace (snd (snd (handleRequest w g req serviceName remaining s))))).
      c \<in> set (backendRequests (trace s)) \<or>
      out_headers c = filterRequestHeaders (Some (req_headers req))"
proof (cases "status g \<noteq> GATEWAY_ACTIVE")
  case True
  then show ?thesis
    by (simp add: handleRequest_def backendRequests_handleErrResponse)
next
  case active: False
  let ?s1 = "emit (RegistryGet serviceName (registryHeaders g)) s"
  have s1: "backendRequests (trace ?s1) = backendRequests (trace s)"
    by (simp add: trace_emit backendRequests_append)
  show ?thesis
  proof (cases "registryGet w serviceName (registryHeaders g)")
    case (Inl e)
    with active show ?thesis
      by (simp add: handleRequest_def getServices_def backendRequests_handleErrResponse s1)
  next
    case (Inr instances)
    obtain r lb s2 where pick: "pickService w (loadBalancer g) instances ?s1 = (r, lb, s2)"
      by (cases "pickService w (loadBalancer g) instances ?s1") auto
    have s2: "backendRequests (trace s2) = backendRequests (trace s)"
      using backendRequests_pickService[OF pick] s1 by simp
    show ?thesis
    proof (cases r)
      case (Inl e)
      with active Inr pick show ?thesis
        by (simp add: handleRequest_def getServices_def backendRequests_handleErrResponse s2)
    next
      case service: (Inr service)
      let ?url = "''https://'' @ host service @ '':'' @ inst_port service @ ''/'' @ remaining"
      let ?s3 = "snd (Date_now w s2)"
      have run: "snd (snd (handleRequest w g req serviceName remaining s)) =
                 snd (getServiceResponse_loop w g req ?url (fst (Date_now w s2))
                        (filterRequestHeaders (Some (req_headers req))) 0 ?s3)"
        using active Inr pick service
        by (simp add: handleRequest_def getServices_def getServiceResponse_def Let_def
                 split: prod.splits)
      show ?thesis
        unfolding run
        using loop_headers[of w g req ?url "fst (Date_now w s2)"
                "filterRequestHeaders (Some (req_headers req))" 0 ?s3]
        by (simp add: trace_Date_now s2)
    qed
  qed
qed

lemma map_of_filter_key:
  "map_of (filter (\<lambda>(k, v). P k) hs) k = (if P k then map_of hs k else None)"
  by (induction hs) auto

text \<open>
  C5, as the code has it. Every backend call that \<open>handleRequest\<close> adds to the run
  carries \<open>filterRequestHeaders\<close> of the inbound headers. As a map, that is the inbound
  map without the keys whose lower-case form is \<open>host\<close>, \<open>connection\<close>,
  \<open>content-length\<close>, \<open>transfer-encoding\<close> or \<open>authorization\<close>; the kept entries are
  entries of the inbound object, unchanged; and no kept key is one of the five in any
  casing.
\<close>

theorem outbound_headers:
  "(\<forall>c \<in> set (backendRequests (trace (snd (snd (handleRequest w g req serviceName remaining s))))).
      c \<in> set (backendRequests (trace s)) \<or>
      out_headers c = filterRequestHeaders (Some (req_headers req))) \<and>
   map_of (filterRequestHeaders (Some hs)) k =
     (if toLowerCase k \<in> EXCLUDED_REQUEST_HEADERS then None else map_of hs k) \<and>
   set (filterRequestHeaders (Some hs)) \<subseteq> set hs \<and>
   (\<forall>(k', v) \<in> set (filterRequestHeaders (Some hs)).
      toLowerCase k' \<notin> {''host'', ''connection'', ''content-length'', ''transfer-encoding'',
                          ''authorization''})"
proof -
  have m: "map_of (filterRequestHeaders (Some hs)) k =
     (if toLowerCase k \<in> EXCLUDED_REQUEST_HEADERS then None else map_of hs k)"
    using map_of_filter_key[of "\<lambda>k. toLowerCase k \<notin> EXCLUDED_REQUEST_HEADERS" hs k]
    by (simp add: filterRequestHeaders_def)
  have sub: "set (filterRequestHeaders (Some hs)) \<subseteq> set hs"
    by (simp add: filterRequestHeaders_def)
  have none: "\<forall>(k', v) \<in> set (filterRequestHeaders (Some hs)).
      toLowerCase k' \<notin> {''host'', ''connection'', ''content-length'', ''transfer-encoding'',
                          ''authorization''}"
    by (auto simp: filterRequestHeaders_def EXCLUDED_REQUEST_HEADERS_def)
  show ?thesis
    using handleRequest_headers[of w g req serviceName remaining s] m sub none by blast
qed

theorem outbound_headers_witness:
  "filterRequestHeaders (Some (req_headers example_request)) =
     [(''keep-alive'', HString ''timeout=5''), (''accept'', HString ''*/*'')] \<and>
   map_of (filterRequestHeaders (Some (req_headers example_request))) ''Authorization'' = None \<and>
   map_of (filterRequestHeaders (Some (req_headers example_request))) ''accept'' =
     Some (HString ''*/*'')"
proof -
  have low: "toLowerCase ''Authorization'' = ''authorization''"
    "toLowerCase ''keep-alive'' = ''keep-alive''" "toLowerCase ''accept'' = ''accept''"
    by (simp_all add: toLowerCase_def toLowerCase_char_def)
  have fr: "filterRequestHeaders (Some (req_headers example_request)) =
              [(''keep-alive'', HString ''timeout=5''), (''accept'', HString ''*/*'')]"
    by (simp add: filterRequestHeaders_def example_request_def low EXCLUDED_REQUEST_HEADERS_def)
  show ?thesis
    using outbound_headers[of "example_world 1 (Inr (''id'', ''token'')) (\<lambda>n. Inr example_success)"
            ApiGateway_new example_request "''products''" "''all''" io_start
            "req_headers example_request" "''Authorization''"]
          outbound_headers[of "example_world 1 (Inr (''id'', ''token'')) (\<lambda>n. Inr example_success)"
            ApiGateway_new example_request "''products''" "''all''" io_start
            "req_headers example_request" "''accept''"]
    by (simp add: fr)
qed

text \<open>
  C5 as the specification states it fails: \<open>keep-alive\<close> is a hop-by-hop header, and the
  backend call of this run carries it.
\<close>

theorem outbound_hop_by_hop_counterexample:
  "backendRequests (trace (snd (snd
     (handleRequest (example_world 1 (Inr (''id'', ''token'')) (\<lambda>n. Inr example_success))
        (ApiGateway_new\<lparr>status := GATEWAY_ACTIVE\<rparr>) example_request ''products'' ''all''
        io_start)))) =
     [\<lparr>out_method = ''GET'', out_url = ''https://localhost:3001/all'',
       out_headers = [(''keep-alive'', HString ''timeout=5''), (''accept'', HString ''*/*'')],
       out_data = None, out_timeout = 5000\<rparr>] \<and>
   toLowerCase ''keep-alive'' \<in> spec_hop_by_hop"
proof -
  let ?w = "example_world 1 (Inr (''id'', ''token'')) (\<lambda>n. Inr example_success)"
  have low: "toLowerCase ''Authorization'' = ''authorization''"
    "toLowerCase ''keep-alive'' = ''keep-alive''" "toLowerCase ''accept'' = ''accept''"
    "toLowerCase ''x-request-id'' = ''x-request-id''"
    "toLowerCase ''X-Internal-Trace'' = ''x-internal-trace''"
    by (simp_all add: toLowerCase_def toLowerCase_char_def)
  have fr: "filterRequestHeaders (Some (req_headers example_request)) =
              [(''keep-alive'', HString ''timeout=5''), (''accept'', HString ''*/*'')]"
    by (simp add: filterRequestHeaders_def example_request_def low EXCLUDED_REQUEST_HEADERS_def)
  have run: "handleRequest ?w (ApiGateway_new\<lparr>status := GATEWAY_ACTIVE\<rparr>) example_request
               ''products'' ''all'' io_start =
     (None, ApiGateway_new\<lparr>status := GATEWAY_ACTIVE\<rparr>,
      \<lparr>trace =
         [RegistryGet ''products'' None,
          BackendRequest
            \<lparr>out_method = ''GET'', out_url = ''https://localhost:3001/all'',
             out_headers = [(''keep-alive'', HString ''timeout=5''), (''accept'', HString ''*/*'')],
             out_data = None, out_timeout = 5000\<rparr>,
          ResSet (filterResponseHeaders (Some example_headers)),
          ResStatusJson 200
            \<lparr>success = True, timestamp = 1,
             data = Some (JObj [(''message'', JStr ''ok'')]), error = None\<rparr>],
       clockReads = 2, randomReads = 1, posts = 0\<rparr>)"
    by (simp add: handleRequest_def getServices_def pickService_def getServiceResponse_def
          getServiceResponse_loop.simps handleSuccessResponse_eq
          ApiGateway_new_def example_world_def Math_random_def Date_now_def
          RandomBalancer_selectInstance_def emit_def io_start_def fr Let_def
          example_instance_def example_success_def)
       (simp add: example_request_def)
  show ?thesis
    by (simp add: run low spec_hop_by_hop_def)
qed

text \<open>
  C6 does not hold of the code. \<open>handleErrResponse\<close> hands the headers of the backend's
  error response to \<^verbatim>\<open>res.set\<close> as they are, where \<open>handleSuccessResponse\<close> filters
  them: for a backend answer of status 500 with the headers \<open>x-request-id\<close>,
  \<open>keep-alive\<close> and \<open>X-Internal-Trace\<close>, all three are set on the client's response,
  while \<open>filterResponseHeaders\<close> would have kept the first only.
\<close>

theorem error_headers_unfiltered:
  "trace (handleErrResponse (example_world 1 (Inr (''id'', ''token'')) (\<lambda>n. Inl (backend_error 500)))
            (backend_error 500) io_start) =
     [ResSet [(''x-request-id'', HString ''1234''),
              (''keep-alive'', HString ''timeout=5, max=200''),
              (''X-Internal-Trace'', HString ''t'')],
      ResStatusJson 500
        \<lparr>success = False, timestamp = 0, data = None,
         error = Some \<lparr>code = ''BROKEN'', message = Some ''backend failed''\<rparr>\<rparr>] \<and>
   filterResponseHeaders (Some example_headers) = [(''x-request-id'', HString ''1234'')] \<and>
   toLowerCase ''keep-alive'' \<in> spec_hop_by_hop \<and>
   startsWith (toLowerCase ''X-Internal-Trace'') ''x-internal-''"
proof -
  have low: "toLowerCase ''keep-alive'' = ''keep-alive''"
    "toLowerCase ''x-request-id'' = ''x-request-id''"
    "toLowerCase ''X-Internal-Trace'' = ''x-internal-trace''"
    by (simp_all add: toLowerCase_def toLowerCase_char_def)
  have fs: "filterResponseHeaders (Some example_headers) = [(''x-request-id'', HString ''1234'')]"
    by (simp add: filterResponseHeaders_def example_headers_def low
                  EXCLUDED_RESPONSE_HEADERS_def startsWith_def)
  have run: "trace (handleErrResponse
                (example_world 1 (Inr (''id'', ''token'')) (\<lambda>n. Inl (backend_error 500)))
                (backend_error 500) io_start) =
     [ResSet example_headers,
      ResStatusJson 500
        \<lparr>success = False, timestamp = 0, data = None,
         error = Some \<lparr>code = ''BROKEN'', message = Some ''backend failed''\<rparr>\<rparr>]"
    by (simp add: handleErrResponse_def backend_error_def trace_sendErr trace_emit Let_def
                  io_start_def emit_def example_world_def)
  show ?thesis
    by (simp add: run fs low spec_hop_by_hop_def startsWith_def) (simp add: example_headers_def)
qed

text \<open>
  The two exits of a failed attempt, for any input. An error that is not to be retried is
  shaped and sent whatever the clock says; a retryable one past the total timeout makes
  the loop throw, and \<open>handleRequest\<close> passes the rejection on without writing anything.
\<close>

lemma loop_not_retryable:
  assumes "backend w a \<lparr>out_method = req_method req, out_url = url, out_headers = fh,
                         out_data = req_body req, out_timeout = timeout g\<rparr> = Inl err"
    and "\<not> shouldRetry (retryStrategy g) err a"
  shows "getServiceResponse_loop w g req url st fh a s =
           (None, handleErrResponse w err
                    (emit (BackendRequest \<lparr>out_method = req_method req, out_url = url,
                             out_headers = fh, out_data = req_body req,
                             out_timeout = timeout g\<rparr>) s))"
  using assms by (subst getServiceResponse_loop.simps) (simp add: Let_def)

lemma loop_timeout_throws:
  assumes "backend w a \<lparr>out_method = req_method req, out_url = url, out_headers = fh,
                         out_data = req_body req, out_timeout = timeout g\<rparr> = Inl err"
    and "shouldRetry (retryStrategy g) err a"
    and "dateNow w (clockReads s) - st \<ge> totalTimeout g"
  shows "getServiceResponse_loop w g req url st fh a s =
           (Some (ApiGatewayError 504 ''GATEWAY_TIMEOUT'' ''Request timed out'' None),
            s\<lparr>trace := trace s @
                  [BackendRequest \<lparr>out_method = req_method req, out_url = url,
                     out_headers = fh, out_data = req_body req, out_timeout = timeout g\<rparr>],
              clockReads := Suc (clockReads s)\<rparr>)"
  using assms
  by (subst getServiceResponse_loop.simps) (simp add: Let_def Date_now_def emit_def)

text \<open>
  C7 does not hold of the code. Gateway active, default options, a clock that advances
  by 10000 ms at each reading, a backend that answers 500: the first attempt fails, the
  error is retryable, the total timeout is spent, and \<open>getServiceResponse\<close> throws the
  504 \<open>GATEWAY_TIMEOUT\<close> error. \<open>handleRequest\<close> returned that promise without awaiting
  it, so its \<^verbatim>\<open>catch\<close> never sees the error: \<open>handleRequest\<close> rejects with it, and the
  run holds the two outbound calls and no write on the client's response.
\<close>

theorem gateway_timeout_not_sent:
  "handleRequest (example_world 10000 (Inr (''id'', ''token'')) (\<lambda>n. Inl (backend_error 500)))
       (ApiGateway_new\<lparr>status := GATEWAY_ACTIVE\<rparr>) example_request ''products'' ''all'' io_start =
     (Some (ApiGatewayError 504 ''GATEWAY_TIMEOUT'' ''Request timed out'' None),
      ApiGateway_new\<lparr>status := GATEWAY_ACTIVE\<rparr>,
      \<lparr>trace =
         [RegistryGet ''products'' None,
          BackendRequest
            \<lparr>out_method = ''GET'', out_url = ''https://localhost:3001/all'',
             out_headers = [(''keep-alive'', HString ''timeout=5''), (''accept'', HString ''*/*'')],
             out_data = None, out_timeout = 5000\<rparr>],
       clockReads = 2, randomReads = 1, posts = 0\<rparr>)"
proof -
  have low: "toLowerCase ''Authorization'' = ''authorization''"
    "toLowerCase ''keep-alive'' = ''keep-alive''" "toLowerCase ''accept'' = ''accept''"
    by (simp_all add: toLowerCase_def toLowerCase_char_def)
  have fr: "filterRequestHeaders (Some (req_headers example_request)) =
              [(''keep-alive'', HString ''timeout=5''), (''accept'', HString ''*/*'')]"
    by (simp add: filterRequestHeaders_def example_request_def low EXCLUDED_REQUEST_HEADERS_def)
  have retry: "shouldRetry RetryStrategy_default (backend_error 500) 0"
    by (simp add: RetryStrategy_default_def backend_error_def)
  show ?thesis
    by (simp add: handleRequest_def getServices_def pickService_def getServiceResponse_def
          getServiceResponse_loop.simps retry
          ApiGateway_new_def example_world_def Math_random_def Date_now_def
          RandomBalancer_selectInstance_def emit_def io_start_def fr Let_def
          example_instance_def)
       (simp add: example_request_def)
qed

section \<open>Properties of registration\<close>

text \<open>
  C10. With the registration key set and the registry URL well formed, a POST that fails
  makes \<open>register\<close> return false with the gateway unchanged in every field; the
  gateway is unchanged whenever \<open>register\<close> does not return true. Whenever
  \<open>register\<close> changes the gateway at all, the POST has resolved with a credential,
  \<open>register\<close> returns true, the status is \<open>GATEWAY_ACTIVE\<close> and that credential is
  installed.
\<close>

theorem register_atomic_on_failure:
  "(SERVICE_REGISTRATION_KEY w = Some key \<and> key \<noteq> [] \<and>
    newURL w ''/service'' (registryUrl g) = Some url \<and>
    registryPost w (posts s) = Inl e \<longrightarrow>
      fst (register w g p s) = Inr False \<and>
      fst (snd (register w g p s)) = g \<and>
      status (fst (snd (register w g p s))) = status g \<and>
      port (fst (snd (register w g p s))) = port g \<and>
      registryHeaders (fst (snd (register w g p s))) = registryHeaders g \<and>
      trace (snd (snd (register w g p s))) = trace s @ [RegistryPost url p key]) \<and>
   (fst (register w g p s) \<noteq> Inr True \<longrightarrow> fst (snd (register w g p s)) = g) \<and>
   (fst (snd (register w g p s)) \<noteq> g \<longrightarrow>
      (\<exists>serviceId token.
         registryPost w (posts s) = Inr (serviceId, token) \<and>
         fst (register w g p s) = Inr True \<and>
         status (fst (snd (register w g p s))) = GATEWAY_ACTIVE \<and>
         port (fst (snd (register w g p s))) = p \<and>
         registryHeaders (fst (snd (register w g p s))) =
           Some \<lparr>x_service_id = serviceId, x_service_token = token\<rparr>))"
  by (auto simp: register_def Let_def emit_def split: option.splits sum.splits prod.splits)

theorem register_atomic_on_failure_witness:
  "registryPost (example_world 1 (Inl (Error ''connect ECONNREFUSED'')) (\<lambda>n. Inr example_success))
     (posts io_start) = Inl (Error ''connect ECONNREFUSED'') \<and>
   register (example_world 1 (Inl (Error ''connect ECONNREFUSED'')) (\<lambda>n. Inr example_success))
     ApiGateway_new (Some 3001) io_start =
     (Inr False, ApiGateway_new,
      \<lparr>trace = [RegistryPost ''http://localhost:3002/service'' (Some 3001) ''abc123''],
       clockReads = 0, randomReads = 0, posts = 1\<rparr>) \<and>
   fst (snd (register (example_world 1 (Inr (''id'', ''token'')) (\<lambda>n. Inr example_success))
               ApiGateway_new (Some 3001) io_start)) \<noteq> ApiGateway_new \<and>
   status (fst (snd (register (example_world 1 (Inr (''id'', ''token'')) (\<lambda>n. Inr example_success))
               ApiGateway_new (Some 3001) io_start))) = GATEWAY_ACTIVE"
proof -
  let ?bad = "example_world 1 (Inl (Error ''connect ECONNREFUSED'')) (\<lambda>n. Inr example_success)"
  let ?good = "example_world 1 (Inr (''id'', ''token'')) (\<lambda>n. Inr example_success)"
  have run: "register ?bad ApiGateway_new (Some 3001) io_start =
     (Inr False, ApiGateway_new,
      \<lparr>trace = [RegistryPost ''http://localhost:3002/service'' (Some 3001) ''abc123''],
       clockReads = 0, randomReads = 0, posts = 1\<rparr>)"
    by (simp add: register_def example_world_def ApiGateway_new_def io_start_def emit_def)
  have changed: "fst (snd (register ?good ApiGateway_new (Some 3001) io_start)) \<noteq> ApiGateway_new"
    by (simp add: register_def example_world_def ApiGateway_new_def io_start_def emit_def)
  show ?thesis
    using register_atomic_on_failure[of ?bad "''abc123''" ApiGateway_new
            "''http://localhost:3002/service''" io_start "Error ''connect ECONNREFUSED''"
            "Some 3001"]
          register_atomic_on_failure[of ?good "''abc123''" ApiGateway_new
            "''http://localhost:3002/service''" io_start "Error ''connect ECONNREFUSED''"
            "Some 3001"]
          changed
    by (simp add: run) (simp add: example_world_def)
qed

text \<open>
  When the key is set, the URL parses and the registry refuses every POST, the loop makes
  the same four calls whatever the retry options are, \<open>maxRetries\<close> included.
\<close>

lemma register_refused:
  assumes "SERVICE_REGISTRATION_KEY w = Some key" and "key \<noteq> []"
    and "newURL w ''/service'' (registryUrl g) = Some url"
    and "registryPost w (posts s) = Inl e"
  shows "register w g p s =
           (Inr False, g, s\<lparr>trace := trace s @ [RegistryPost url p key], posts := Suc (posts s)\<rparr>)"
  using assms by (simp add: register_def emit_def)

lemma registerAttempts_post:
  "registerAttempts (s\<lparr>trace := trace s @ [RegistryPost url p key], posts := n\<rparr>) =
     Suc (registerAttempts s)"
  by (simp add: registerAttempts_def)

lemma registerAttempts_delay: "registerAttempts (delay w rs a s) = registerAttempts s"
  by (simp add: registerAttempts_def delay_def Math_random_def emit_def)

lemma registerAttempts_emit_SIGTERM: "registerAttempts (emit EmitSIGTERM s) = registerAttempts s"
  by (simp add: registerAttempts_def emit_def)

lemma attemptReregister_all_refused:
  assumes key: "SERVICE_REGISTRATION_KEY w = Some key" "key \<noteq> []"
    and url: "newURL w ''/service'' (registryUrl g) = Some url"
    and refused: "\<And>n. \<exists>e. registryPost w n = Inl e"
  shows "fst (attemptReregister w g s) = None \<and>
         fst (snd (attemptReregister w g s)) = g\<lparr>status := SHUTTING_DOWN\<rparr> \<and>
         registerAttempts (snd (snd (attemptReregister w g s))) = registerAttempts s + 4 \<and>
         last (trace (snd (snd (attemptReregister w g s)))) = EmitSIGTERM"
proof -
  have reg: "register w g (port g) s' =
           (Inr False, g,
            s'\<lparr>trace := trace s' @ [RegistryPost url (port g) key], posts := Suc (posts s')\<rparr>)"
    for s'
    using refused[of "posts s'"] register_refused[OF key url, of s' _ "port g"] by auto
  define step where
    "step a s' = delay w (retryStrategy g) a
        (s'\<lparr>trace := trace s' @ [RegistryPost url (port g) key], posts := Suc (posts s')\<rparr>)"
    for a s'
  have count: "registerAttempts (step a s') = Suc (registerAttempts s')" for a s'
    by (simp add: step_def registerAttempts_delay registerAttempts_post)
  let ?s3 = "step 3 (step 2 (step 1 s))"
  let ?end = "emit EmitSIGTERM
                (?s3\<lparr>trace := trace ?s3 @ [RegistryPost url (port g) key],
                      posts := Suc (posts ?s3)\<rparr>)"
  have run: "attemptReregister w g s = (None, g\<lparr>status := SHUTTING_DOWN\<rparr>, ?end)"
    unfolding attemptReregister_def
    apply (subst attemptReregister_loop.simps, simp add: reg)
    apply (subst attemptReregister_loop.simps, simp add: reg)
    apply (subst attemptReregister_loop.simps, simp add: reg)
    apply (subst attemptReregister_loop.simps, simp add: reg)
    apply (simp add: step_def numeral_2_eq_2 numeral_3_eq_3)
    done
  have n: "registerAttempts ?end = registerAttempts s + 4"
    by (simp add: registerAttempts_emit_SIGTERM registerAttempts_post count)
  have l: "last (trace ?end) = EmitSIGTERM"
    by (simp add: emit_def)
  show ?thesis using n l by (simp add: run)
qed

text \<open>
  C9 does not hold of the code. With the default options (\<open>maxRetries = 3\<close>) and a
  registry that refuses every POST, \<open>attemptReregister\<close> ends, and on its way it has
  called \<open>register\<close> four times: the counter is tested against the literal 3 before it
  is incremented. It slept \<open>delay(1)\<close>, \<open>delay(2)\<close>, \<open>delay(3)\<close> in between, then set
  \<open>SHUTTING_DOWN\<close> and emitted the signal.
\<close>

theorem reregister_four_attempts:
  "attemptReregister (example_world 1 (Inl (Error ''connect ECONNREFUSED'')) (\<lambda>n. Inr example_success))
     (ApiGateway_new\<lparr>status := ATTEMPTING_REREGISTRATION, port := Some 3001\<rparr>) io_start =
     (None, ApiGateway_new\<lparr>status := SHUTTING_DOWN, port := Some 3001\<rparr>,
      \<lparr>trace =
         [RegistryPost ''http://localhost:3002/service'' (Some 3001) ''abc123'', Sleep 2000,
          RegistryPost ''http://localhost:3002/service'' (Some 3001) ''abc123'', Sleep 4000,
          RegistryPost ''http://localhost:3002/service'' (Some 3001) ''abc123'', Sleep 5000,
          RegistryPost ''http://localhost:3002/service'' (Some 3001) ''abc123'', EmitSIGTERM],
       clockReads = 0, randomReads = 3, posts = 4\<rparr>) \<and>
   registerAttempts (snd (snd
     (attemptReregister (example_world 1 (Inl (Error ''connect ECONNREFUSED'')) (\<lambda>n. Inr example_success))
        (ApiGateway_new\<lparr>status := ATTEMPTING_REREGISTRATION, port := Some 3001\<rparr>) io_start))) = 4 \<and>
   maxRetries (retryStrategy ApiGateway_new) = 3"
proof -
  let ?w = "example_world 1 (Inl (Error ''connect ECONNREFUSED'')) (\<lambda>n. Inr example_success)"
  let ?g = "ApiGateway_new\<lparr>status := ATTEMPTING_REREGISTRATION, port := Some 3001\<rparr>"
  have reg: "\<And>s. register ?w ?g (Some 3001) s =
     (Inr False, ?g,
      s\<lparr>trace := trace s @ [RegistryPost ''http://localhost:3002/service'' (Some 3001) ''abc123''],
        posts := Suc (posts s)\<rparr>)"
    by (simp add: register_def example_world_def ApiGateway_new_def emit_def)
  have port: "port ?g = Some 3001" by simp
  have rs: "retryStrategy ?g = RetryStrategy_default" by (simp add: ApiGateway_new_def)
  have d: "\<And>a s. delay ?w RetryStrategy_default a s =
      s\<lparr>trace := trace s @ [Sleep (exponentialDelay RetryStrategy_default a)],
        randomReads := Suc (randomReads s)\<rparr>"
    by (simp add: delay_def Math_random_def emit_def delay_ms_def jitter_def example_world_def)
  have e: "exponentialDelay RetryStrategy_default (Suc 0) = 2000"
    "exponentialDelay RetryStrategy_default (Suc (Suc 0)) = 4000"
    "exponentialDelay RetryStrategy_default (Suc (Suc (Suc 0))) = 5000"
    by (simp_all add: exponentialDelay_def RetryStrategy_default_def)
  have run: "attemptReregister ?w ?g io_start =
     (None, ApiGateway_new\<lparr>status := SHUTTING_DOWN, port := Some 3001\<rparr>,
      \<lparr>trace =
         [RegistryPost ''http://localhost:3002/service'' (Some 3001) ''abc123'', Sleep 2000,
          RegistryPost ''http://localhost:3002/service'' (Some 3001) ''abc123'', Sleep 4000,
          RegistryPost ''http://localhost:3002/service'' (Some 3001) ''abc123'', Sleep 5000,
          RegistryPost ''http://localhost:3002/service'' (Some 3001) ''abc123'', EmitSIGTERM],
       clockReads = 0, randomReads = 3, posts = 4\<rparr>)"
    by (simp add: attemptReregister_def attemptReregister_loop.simps port reg rs d e emit_def
                  io_start_def)
  show ?thesis
    by (simp add: run registerAttempts_def) (simp add: ApiGateway_new_def RetryStrategy_default_def)
qed

end
